theory Spec2Isabelle
  imports Main "HOL-Library.Word"
begin

unbundle bit_operations_syntax

section \<open>Admin two-factor authentication: the SQL functions of the 2FA migration\<close>

text \<open>
  The development embeds the PL/pgSQL functions of the migration "Add admin two-factor
  authentication support": \<open>base32_encode\<close>, \<open>base32_decode\<close>, \<open>int8_to_bytea\<close>,
  \<open>admin_totp_is_valid\<close>, \<open>admin_take_recovery_code\<close>, \<open>admin_login\<close>,
  \<open>admin_verify_two_factor\<close>, \<open>admin_start_two_factor\<close>,
  \<open>admin_confirm_two_factor\<close> and \<open>admin_disable_two_factor\<close>.

  A \<open>bytea\<close> is a list of 8-bit words, a \<open>bigint\<close> a 64-bit word, an \<open>integer\<close> a
  32-bit word where its bits matter, \<open>text\<close> a string, and a nullable value an
  \<open>option\<close> (\<open>None\<close> is SQL's NULL). A function that can fail returns a sum whose
  left injection carries the error. PL/pgSQL resolves the functions and the column
  references of a statement when the statement is first executed, so a statement
  that names a function with no matching signature, or a column that is also a
  variable of the function, raises at that point.
\<close>

type_synonym byte = "8 word"
type_synonym bytea = "byte list"
type_synonym bigint = "64 word"
type_synonym int4 = "32 word"

text \<open>
  The errors: a \<open>RAISE EXCEPTION\<close> with its message; \<open>function ... does not exist\<close>
  with the unmatched signature; \<open>column reference ... is ambiguous\<close> with the name
  that is both a column of the table and an output column of the function.
\<close>

datatype error =
    Raise_exception string
  | Undefined_function string
  | Ambiguous_column string

subsection \<open>SQL string helpers\<close>

definition alphabet :: string where
  "alphabet = ''ABCDEFGHIJKLMNOPQRSTUVWXYZ234567''"

text \<open>\<open>position(ch IN s)\<close>: the 1-based index of the first occurrence, 0 when absent.\<close>

fun position_from :: "int \<Rightarrow> char \<Rightarrow> string \<Rightarrow> int" where
  "position_from i ch [] = 0"
| "position_from i ch (c # cs) = (if c = ch then i else position_from (i + 1) ch cs)"

definition position :: "char \<Rightarrow> string \<Rightarrow> int" where
  "position ch s = position_from 1 ch s"

text \<open>The character class \<open>[A-Z2-7]\<close> of the cleaning regular expression.\<close>

definition base32_char :: "char \<Rightarrow> bool" where
  "base32_char c =
     ((65 \<le> (of_char c :: nat) \<and> (of_char c :: nat) \<le> 90) \<or>
      (50 \<le> (of_char c :: nat) \<and> (of_char c :: nat) \<le> 55))"

text \<open>\<open>trim(s)\<close>: removes the spaces at both ends.\<close>

definition trim :: "string \<Rightarrow> string" where
  "trim s = rev (dropWhile (\<lambda>c. c = CHR '' '') (rev (dropWhile (\<lambda>c. c = CHR '' '') s)))"

text \<open>\<open>lpad(s, n, '0')\<close>: pads on the left to length \<open>n\<close>, and truncates a longer string.\<close>

definition lpad0 :: "string \<Rightarrow> nat \<Rightarrow> string" where
  "lpad0 s n = (if n \<le> length s then take n s else replicate (n - length s) (CHR ''0'') @ s)"

definition digit_char :: "nat \<Rightarrow> char" where
  "digit_char d = ''0123456789'' ! d"

text \<open>The cast \<open>::text\<close> of a non-negative integer: its decimal digits.\<close>

fun int_text :: "nat \<Rightarrow> string" where
  "int_text n = (if n < 10 then [digit_char n] else int_text (n div 10) @ [digit_char (n mod 10)])"

declare int_text.simps [simp del]

definition coalesce :: "string option \<Rightarrow> string" where
  "coalesce v = (case v of None \<Rightarrow> [] | Some s \<Rightarrow> s)"

subsection \<open>The collaborators\<close>

text \<open>
  What the migration takes from its environment: pgcrypto's \<open>crypt\<close> and \<open>hmac\<close>,
  the clock, and the server's \<open>upper\<close>, which follows the locale of the database (it
  may map characters beyond the ASCII letters to \<open>A-Z\<close>). \<open>hmac(data, key, 'sha1')\<close>
  yields a 20-byte digest, kept here as a 160-bit word whose most significant byte is
  byte 0. \<open>now\<close> is \<open>extract(epoch FROM now())\<close>, in whole seconds (\<open>floor(e / 30)\<close>
  does not see the fraction).
\<close>

type_synonym digest = "160 word"

record env =
  crypt :: "string \<Rightarrow> string \<Rightarrow> string"
  hmac :: "bytea \<Rightarrow> bytea \<Rightarrow> digest"
  now :: int
  upper :: "string \<Rightarrow> string"

subsection \<open>base32_encode\<close>

text \<open>
  The inner \<open>WHILE bits >= 5\<close> loop. Its body is \<open>bits := bits - 5\<close> followed by
  \<open>output := output || substr(alphabet, ((buffer >> bits) & 31) + 1, 1)\<close>. The
  position argument is a \<open>bigint\<close> (\<open>buffer\<close> is one), \<open>substr\<close> exists for an
  \<open>integer\<close> position only and \<open>bigint\<close> is not cast to \<open>integer\<close> implicitly: the
  assignment raises in the first run of the body.
\<close>

definition enc_while :: "bigint \<Rightarrow> nat \<Rightarrow> string \<Rightarrow> error + nat \<times> string" where
  "enc_while buffer bits output =
     (if 5 \<le> bits then Inl (Undefined_function ''substr(text, bigint, integer)'')
      else Inr (bits, output))"

text \<open>The loop \<open>FOR i IN 0..length(input) - 1\<close>, over the bytes of the input.\<close>

fun enc_loop :: "bytea \<Rightarrow> bigint \<times> nat \<times> string \<Rightarrow> error + bigint \<times> nat \<times> string" where
  "enc_loop [] st = Inr st"
| "enc_loop (byte_value # rest) (buffer, bits, output) =
     (case enc_while (push_bit 8 buffer + ucast byte_value) (bits + 8) output of
        Inl err \<Rightarrow> Inl err
      | Inr (bits', output') \<Rightarrow>
          enc_loop rest (push_bit 8 buffer + ucast byte_value, bits', output'))"

text \<open>The closing \<open>IF bits > 0\<close> calls \<open>substr\<close> with a \<open>bigint\<close> position as well.\<close>

definition base32_encode :: "bytea option \<Rightarrow> error + string" where
  "base32_encode input =
     (case input of
        None \<Rightarrow> Inr []
      | Some bs \<Rightarrow>
          if length bs = 0 then Inr []
          else (case enc_loop bs (0, 0, []) of
                  Inl err \<Rightarrow> Inl err
                | Inr (buffer, bits, output) \<Rightarrow>
                    if 0 < bits then Inl (Undefined_function ''substr(text, bigint, integer)'')
                    else Inr output))"

subsection \<open>base32_decode\<close>

text \<open>
  The inner \<open>WHILE bits >= 8\<close> loop. \<open>>>\<close> on a bigint is the arithmetic shift; the
  result is assigned to the \<open>integer\<close> variable \<open>byte\<close> and appended as one byte.
\<close>

fun dec_while :: "bigint \<Rightarrow> nat \<Rightarrow> bytea \<Rightarrow> nat \<times> bytea" where
  "dec_while buffer bits output =
     (if 8 \<le> bits
      then dec_while buffer (bits - 8)
             (output @ [ucast (signed_drop_bit (bits - 8) buffer AND 255)])
      else (bits, output))"

declare dec_while.simps [simp del]

text \<open>
  The \<open>FOR i IN 1..length(cleaned)\<close> loop; the exception leaves it at once. The shift
  \<open><<\<close> drops the bits that leave the 64-bit word, and the sum \<open>(buffer << 5) + value\<close>
  cannot overflow, the low five bits of the shifted buffer being zero.
\<close>

fun dec_loop :: "string \<Rightarrow> bigint \<times> nat \<times> bytea \<Rightarrow> error + bytea" where
  "dec_loop [] (buffer, bits, output) = Inr output"
| "dec_loop (ch # rest) (buffer, bits, output) =
     (if position ch alphabet - 1 < 0
      then Inl (Raise_exception (''Invalid base32 character: '' @ [ch]))
      else (case dec_while (push_bit 5 buffer + of_int (position ch alphabet - 1)) (bits + 5) output of
              (bits', output') \<Rightarrow>
                dec_loop rest (push_bit 5 buffer + of_int (position ch alphabet - 1), bits', output')))"

text \<open>
  The declaration
  \<open>cleaned text := regexp_replace(upper(coalesce(input, '')), '[^A-Z2-7]', '', 'g')\<close>.
\<close>

definition cleaned :: "env \<Rightarrow> string option \<Rightarrow> string" where
  "cleaned e input = filter base32_char (upper e (coalesce input))"

definition base32_decode :: "env \<Rightarrow> string option \<Rightarrow> error + bytea" where
  "base32_decode e input =
     (if cleaned e input = [] then Inr [] else dec_loop (cleaned e input) (0, 0, []))"

subsection \<open>int8_to_bytea and admin_totp_is_valid\<close>

text \<open>
  The loop \<open>FOR i IN 0..7\<close> of \<open>int8_to_bytea\<close> has the single statement
  \<open>result := set_byte(result, 7 - i, (value >> (i * 8)) & 255)\<close>. Its third argument
  is a \<open>bigint\<close> (\<open>value\<close> is one) and \<open>set_byte\<close> takes an \<open>integer\<close>: the statement
  raises in the first run, whatever the value.
\<close>

definition int8_to_bytea :: "bigint \<Rightarrow> error + bytea" where
  "int8_to_bytea v = Inl (Undefined_function ''set_byte(bytea, integer, bigint)'')"

text \<open>\<open>get_byte(hash, i)\<close> on a 20-byte digest, as an \<open>integer\<close>.\<close>

definition get_byte :: "digest \<Rightarrow> nat \<Rightarrow> int4" where
  "get_byte h i = ucast (ucast (drop_bit (8 * (19 - i)) h) :: byte)"

text \<open>The statements of the loop body after \<open>hash\<close> is known, up to the value of \<open>otp\<close>.\<close>

definition otp_of_hash :: "digest \<Rightarrow> string" where
  "otp_of_hash hash =
     (let offset_pos = unat (get_byte hash (20 - 1) AND 15);
          slice = push_bit 24 (get_byte hash offset_pos AND 255)
                  OR push_bit 16 (get_byte hash (offset_pos + 1) AND 255)
                  OR push_bit 8 (get_byte hash (offset_pos + 2) AND 255)
                  OR (get_byte hash (offset_pos + 3) AND 255)
      in lpad0 (int_text (unat (slice AND 2147483647) mod 1000000)) 6)"

text \<open>
  The loop \<open>FOR i IN -allowed_drift..allowed_drift\<close>, over the list of its indices.
  Each run starts with \<open>hash := hmac(int8_to_bytea(counter), secret_bytes, 'sha1')\<close>.
\<close>

fun totp_loop :: "env \<Rightarrow> bytea \<Rightarrow> bigint \<Rightarrow> string \<Rightarrow> int list \<Rightarrow> error + bool" where
  "totp_loop e secret_bytes timestep code [] = Inr False"
| "totp_loop e secret_bytes timestep code (i # rest) =
     (case int8_to_bytea (timestep + of_int i) of
        Inl err \<Rightarrow> Inl err
      | Inr message \<Rightarrow>
          if otp_of_hash (hmac e message secret_bytes) = trim code then Inr True
          else totp_loop e secret_bytes timestep code rest)"

definition admin_totp_is_valid :: "env \<Rightarrow> string option \<Rightarrow> string option \<Rightarrow> int \<Rightarrow> error + bool" where
  "admin_totp_is_valid e secret code allowed_drift =
     (case (secret, code) of
        (Some s, Some c) \<Rightarrow>
          if trim c = [] then Inr False
          else (case base32_decode e (Some s) of
                  Inl err \<Rightarrow> Inl err
                | Inr secret_bytes \<Rightarrow>
                    if length secret_bytes = 0 then Inr False
                    else totp_loop e secret_bytes (of_int (now e div 30)) c
                           [- allowed_drift .. allowed_drift])
      | _ \<Rightarrow> Inr False)"

subsection \<open>The tables\<close>

text \<open>
  A uuid is an opaque number and a timestamp a number of seconds. The tables are lists
  of rows: \<open>SELECT ... INTO\<close> takes the first row that satisfies the condition and
  \<open>UPDATE ... WHERE\<close> rewrites every row that does. The trigger
  \<open>update_admin_users_updated_at\<close> stamps each updated row of \<open>admin_users\<close>. An
  error aborts the call and leaves the tables as they were.
\<close>

type_synonym uuid = nat
type_synonym timestamptz = int

record admin_user =
  a_id :: uuid
  a_email :: string
  a_password_hash :: string
  a_name :: string
  a_role :: string
  a_updated_at :: timestamptz
  two_factor_enabled :: bool
  two_factor_secret :: "string option"
  two_factor_recovery_codes :: "string list"
  two_factor_temp_secret :: "string option"
  two_factor_temp_recovery_codes :: "string list"
  two_factor_confirmed_at :: "timestamptz option"

record login_challenge =
  c_id :: uuid
  admin_user_id :: uuid
  created_at :: timestamptz
  expires_at :: timestamptz
  consumed_at :: "timestamptz option"

record db =
  admin_users :: "admin_user list"
  admin_login_challenges :: "login_challenge list"

text \<open>The trigger function: \<open>NEW.updated_at = now()\<close>.\<close>

definition update_updated_at_column :: "env \<Rightarrow> admin_user \<Rightarrow> admin_user" where
  "update_updated_at_column e a = a\<lparr>a_updated_at := now e\<rparr>"

text \<open>\<open>UPDATE admin_users SET ... WHERE id = uid\<close>, with the trigger.\<close>

definition update_admin_users :: "env \<Rightarrow> uuid \<Rightarrow> (admin_user \<Rightarrow> admin_user) \<Rightarrow> db \<Rightarrow> db" where
  "update_admin_users e uid f d =
     d\<lparr>admin_users :=
          map (\<lambda>a. if a_id a = uid then update_updated_at_column e (f a) else a) (admin_users d)\<rparr>"

text \<open>\<open>array_remove(two_factor_recovery_codes, matched)\<close> removes every equal element.\<close>

definition remove_code :: "string \<Rightarrow> admin_user \<Rightarrow> admin_user" where
  "remove_code matched a =
     a\<lparr>two_factor_recovery_codes := removeAll matched (two_factor_recovery_codes a)\<rparr>"

text \<open>
  The test \<open>account.password_hash <> crypt(login_password, account.password_hash)\<close>
  as an \<open>IF\<close> condition. \<open>crypt\<close> of a NULL password is NULL, the comparison is then
  NULL, and \<open>IF\<close> takes a NULL condition as not satisfied.
\<close>

definition password_mismatch :: "env \<Rightarrow> admin_user \<Rightarrow> string option \<Rightarrow> bool" where
  "password_mismatch e account login_password =
     (case login_password of
        None \<Rightarrow> False
      | Some p \<Rightarrow> a_password_hash account \<noteq> crypt e p (a_password_hash account))"

subsection \<open>admin_take_recovery_code\<close>

text \<open>
  Its variables are \<open>user_id\<close>, \<open>attempt\<close>, \<open>hashed\<close> and \<open>matched\<close>; no column of
  its statements bears one of these names.
\<close>

definition admin_take_recovery_code :: "env \<Rightarrow> db \<Rightarrow> uuid \<Rightarrow> string option \<Rightarrow> bool \<times> db" where
  "admin_take_recovery_code e d user_id attempt =
     (case attempt of
        None \<Rightarrow> (False, d)
      | Some att \<Rightarrow>
          if trim att = [] then (False, d)
          else (case find (\<lambda>code_hash. crypt e (trim att) code_hash = code_hash)
                       (case find (\<lambda>a. a_id a = user_id) (admin_users d) of
                          None \<Rightarrow> []
                        | Some a \<Rightarrow> two_factor_recovery_codes a) of
                  None \<Rightarrow> (False, d)
                | Some matched \<Rightarrow> (True, update_admin_users e user_id (remove_code matched) d)))"

subsection \<open>admin_login\<close>

record login_row =
  l_success :: bool
  l_requires_otp :: bool
  l_challenge_id :: "uuid option"
  l_error :: "string option"
  l_id :: "uuid option"
  l_email :: "string option"
  l_name :: "string option"
  l_role :: "string option"
  l_two_factor_enabled :: bool

definition login_rejected :: login_row where
  "login_rejected =
     \<lparr>l_success = False, l_requires_otp = False, l_challenge_id = None,
      l_error = Some ''Invalid credentials'', l_id = None, l_email = None, l_name = None,
      l_role = None, l_two_factor_enabled = False\<rparr>"

definition login_accepted :: "admin_user \<Rightarrow> login_row" where
  "login_accepted account =
     \<lparr>l_success = True, l_requires_otp = False, l_challenge_id = None, l_error = None,
      l_id = Some (a_id account), l_email = Some (a_email account),
      l_name = Some (a_name account), l_role = Some (a_role account),
      l_two_factor_enabled = two_factor_enabled account\<rparr>"

text \<open>
  The function returns a table with a column \<open>id\<close>, which makes \<open>id\<close> a variable of
  the body. The first \<open>SELECT\<close> qualifies its column (\<open>a.email\<close>). In the branch of an
  account with 2FA, \<open>INSERT INTO admin_login_challenges ... RETURNING id INTO
  challenge\<close> names \<open>id\<close> unqualified: the statement raises, and no challenge is stored.
\<close>

definition admin_login :: "env \<Rightarrow> db \<Rightarrow> string \<Rightarrow> string option \<Rightarrow> error + (login_row \<times> db)" where
  "admin_login e d login_email login_password =
     (case find (\<lambda>a. a_email a = login_email) (admin_users d) of
        None \<Rightarrow> Inr (login_rejected, d)
      | Some account \<Rightarrow>
          if password_mismatch e account login_password then Inr (login_rejected, d)
          else if two_factor_enabled account \<and> two_factor_secret account \<noteq> None
          then Inl (Ambiguous_column ''id'')
          else Inr (login_accepted account, d))"

subsection \<open>admin_verify_two_factor\<close>

record verify_row =
  v_success :: bool
  v_error :: "string option"
  v_id :: "uuid option"
  v_email :: "string option"
  v_name :: "string option"
  v_role :: "string option"
  v_two_factor_enabled :: bool

text \<open>
  This function too returns a table with a column \<open>id\<close>. Its first statement is
  \<open>SELECT * INTO record_challenge FROM admin_login_challenges WHERE id = challenge AND
  consumed_at IS NULL AND expires_at > now()\<close>, where \<open>id\<close> is unqualified: every call
  raises there, before a row is read, and none of the statements that follow (which
  name \<open>id\<close> in the same way) is reached.
\<close>

definition admin_verify_two_factor :: "env \<Rightarrow> db \<Rightarrow> uuid \<Rightarrow> string option \<Rightarrow> error + (verify_row \<times> db)" where
  "admin_verify_two_factor e d challenge otp_code = Inl (Ambiguous_column ''id'')"

subsection \<open>admin_start_two_factor\<close>

definition hex_digit :: "nat \<Rightarrow> char" where
  "hex_digit n = ''0123456789abcdef'' ! n"

text \<open>\<open>encode(bytes, 'hex')\<close>: two lower-case digits for each byte.\<close>

definition encode_hex :: "bytea \<Rightarrow> string" where
  "encode_hex bs = concat (map (\<lambda>b. [hex_digit (unat b div 16), hex_digit (unat b mod 16)]) bs)"

text \<open>The two assignments to \<open>code_value\<close> in the loop body.\<close>

definition code_value :: "env \<Rightarrow> bytea \<Rightarrow> string" where
  "code_value e random5 =
     (let v = upper e (take 10 (encode_hex random5))
      in take 5 v @ ''-'' @ take 5 (drop 5 v))"

definition set_pending :: "string \<Rightarrow> string list \<Rightarrow> admin_user \<Rightarrow> admin_user" where
  "set_pending generated_secret hashed a =
     a\<lparr>two_factor_temp_secret := Some generated_secret,
       two_factor_temp_recovery_codes := hashed\<rparr>"

text \<open>
  The random sources are arguments: \<open>random20\<close> is \<open>gen_random_bytes(20)\<close>, and
  \<open>random5 i\<close> and \<open>salt i\<close> are \<open>gen_random_bytes(5)\<close> and \<open>gen_salt('bf')\<close> in
  the \<open>i\<close>-th run of the loop \<open>FOR i IN 1..8\<close>. The output columns are \<open>secret\<close>
  and \<open>recovery_codes\<close>, which no statement uses as a column. The first statement
  after the credential check is \<open>generated_secret := base32_encode(...)\<close>.
\<close>

definition admin_start_two_factor ::
  "env \<Rightarrow> bytea \<Rightarrow> (nat \<Rightarrow> bytea) \<Rightarrow> (nat \<Rightarrow> string) \<Rightarrow> db \<Rightarrow> string \<Rightarrow> string option
     \<Rightarrow> error + ((string \<times> string list) \<times> db)" where
  "admin_start_two_factor e random20 random5 salt d login_email login_password =
     (case find (\<lambda>a. a_email a = login_email) (admin_users d) of
        None \<Rightarrow> Inl (Raise_exception ''Invalid credentials'')
      | Some account \<Rightarrow>
          if password_mismatch e account login_password
          then Inl (Raise_exception ''Invalid credentials'')
          else (case base32_encode (Some random20) of
                  Inl err \<Rightarrow> Inl err
                | Inr generated_secret \<Rightarrow>
                    Inr ((generated_secret,
                          map (\<lambda>i. code_value e (random5 i)) [1, 2, 3, 4, 5, 6, 7, 8]),
                         update_admin_users e (a_id account)
                           (set_pending generated_secret
                              (map (\<lambda>i. crypt e (code_value e (random5 i)) (salt i))
                                 [1, 2, 3, 4, 5, 6, 7, 8])) d)))"

subsection \<open>admin_confirm_two_factor and admin_disable_two_factor\<close>

record status_row =
  s_success :: bool
  s_error :: "string option"

definition status_rejected :: "string \<Rightarrow> status_row" where
  "status_rejected msg = \<lparr>s_success = False, s_error = Some msg\<rparr>"

definition status_ok :: status_row where
  "status_ok = \<lparr>s_success = True, s_error = None\<rparr>"

text \<open>The \<open>SET\<close> list of the confirming \<open>UPDATE\<close>; its values come from the selected row.\<close>

definition promote :: "env \<Rightarrow> admin_user \<Rightarrow> admin_user \<Rightarrow> admin_user" where
  "promote e account a =
     a\<lparr>two_factor_secret := two_factor_temp_secret account,
       two_factor_enabled := True,
       two_factor_confirmed_at := Some (now e),
       two_factor_recovery_codes := two_factor_temp_recovery_codes account,
       two_factor_temp_secret := None,
       two_factor_temp_recovery_codes := []\<rparr>"

text \<open>
  The output columns of both functions are \<open>success\<close> and \<open>error\<close>; their statements
  name the columns \<open>email\<close> and \<open>id\<close> without conflict. An error of
  \<open>admin_totp_is_valid\<close> passes through.
\<close>

definition admin_confirm_two_factor :: "env \<Rightarrow> db \<Rightarrow> string \<Rightarrow> string option \<Rightarrow> string option \<Rightarrow> error + (status_row \<times> db)" where
  "admin_confirm_two_factor e d login_email login_password otp_code =
     (case find (\<lambda>a. a_email a = login_email) (admin_users d) of
        None \<Rightarrow> Inr (status_rejected ''Invalid credentials'', d)
      | Some account \<Rightarrow>
          if password_mismatch e account login_password
          then Inr (status_rejected ''Invalid credentials'', d)
          else if two_factor_temp_secret account = None
          then Inr (status_rejected ''No pending setup found'', d)
          else (case admin_totp_is_valid e (two_factor_temp_secret account) otp_code 1 of
                  Inl err \<Rightarrow> Inl err
                | Inr False \<Rightarrow> Inr (status_rejected ''Verification code is invalid'', d)
                | Inr True \<Rightarrow>
                    Inr (status_ok, update_admin_users e (a_id account) (promote e account) d)))"

definition clear_two_factor :: "admin_user \<Rightarrow> admin_user" where
  "clear_two_factor a =
     a\<lparr>two_factor_enabled := False, two_factor_secret := None,
       two_factor_recovery_codes := [], two_factor_temp_secret := None,
       two_factor_temp_recovery_codes := []\<rparr>"

definition admin_disable_two_factor :: "env \<Rightarrow> db \<Rightarrow> string \<Rightarrow> string option \<Rightarrow> string option \<Rightarrow> error + (status_row \<times> db)" where
  "admin_disable_two_factor e d login_email login_password otp_code =
     (case find (\<lambda>a. a_email a = login_email) (admin_users d) of
        None \<Rightarrow> Inr (status_rejected ''Invalid credentials'', d)
      | Some account \<Rightarrow>
          if password_mismatch e account login_password
          then Inr (status_rejected ''Invalid credentials'', d)
          else if \<not> two_factor_enabled account
          then Inr (status_rejected ''Two-factor authentication is not enabled'', d)
          else (case admin_totp_is_valid e (two_factor_secret account) otp_code 1 of
                  Inl err \<Rightarrow> Inl err
                | Inr True \<Rightarrow>
                    Inr (status_ok, update_admin_users e (a_id account) clear_two_factor d)
                | Inr False \<Rightarrow>
                    (case admin_take_recovery_code e d (a_id account) otp_code of
                       (False, d') \<Rightarrow> Inr (status_rejected ''Invalid authentication code'', d')
                     | (True, d') \<Rightarrow>
                         Inr (status_ok, update_admin_users e (a_id account) clear_two_factor d'))))"

subsection \<open>Conditions on the arguments\<close>

text \<open>
  The credential check that opens \<open>admin_login\<close>, \<open>admin_start_two_factor\<close>,
  \<open>admin_confirm_two_factor\<close> and \<open>admin_disable_two_factor\<close> lets a call pass when a
  row with this email exists and the password test does not reject; a code is blank
  when it is NULL or consists of spaces. The email is a string: a NULL email equals the
  email of no row, as a string does that no account has.
\<close>

definition credentials_pass :: "env \<Rightarrow> db \<Rightarrow> string \<Rightarrow> string option \<Rightarrow> bool" where
  "credentials_pass e d login_email login_password =
     (case find (\<lambda>a. a_email a = login_email) (admin_users d) of
        None \<Rightarrow> False
      | Some account \<Rightarrow> \<not> password_mismatch e account login_password)"

definition blank :: "string option \<Rightarrow> bool" where
  "blank code = (case code of None \<Rightarrow> True | Some c \<Rightarrow> trim c = [])"

subsection \<open>A small installation\<close>

text \<open>
  Concrete collaborators and rows on which the theorems below are instantiated. The
  password scheme keeps the two-character salt in front of the password; the digest
  is the example value of RFC 4226, section 5.4; \<open>upper\<close> is that of the C locale.
\<close>

definition ascii_upper :: "char \<Rightarrow> char" where
  "ascii_upper c =
     (case map_of (zip ''abcdefghijklmnopqrstuvwxyz'' ''ABCDEFGHIJKLMNOPQRSTUVWXYZ'') c of
        None \<Rightarrow> c
      | Some u \<Rightarrow> u)"

definition demo_crypt :: "string \<Rightarrow> string \<Rightarrow> string" where
  "demo_crypt password setting = take 2 setting @ password"

definition demo_hmac :: "bytea \<Rightarrow> bytea \<Rightarrow> digest" where
  "demo_hmac data key = 0x1f8698690e02ca16618550ef7f19da8e945b555a"

definition demo_env :: "int \<Rightarrow> env" where
  "demo_env t = \<lparr>crypt = demo_crypt, hmac = demo_hmac, now = t, upper = map ascii_upper\<rparr>"

definition demo_admin :: admin_user where
  "demo_admin =
     \<lparr>a_id = 1, a_email = ''admin@example.com'', a_password_hash = ''s1ChangeThis'',
      a_name = ''Admin User'', a_role = ''super_admin'', a_updated_at = 0,
      two_factor_enabled = False, two_factor_secret = None, two_factor_recovery_codes = [],
      two_factor_temp_secret = None, two_factor_temp_recovery_codes = [],
      two_factor_confirmed_at = None\<rparr>"

definition demo_admin_capital :: admin_user where
  "demo_admin_capital = demo_admin\<lparr>a_id := 2, a_email := ''Admin@example.com''\<rparr>"

definition demo_hashes :: "string list" where
  "demo_hashes = [''s20A1B2-C3D4E'', ''s211111-AAAAA'', ''s222222-BBBBB'', ''s233333-CCCCC'',
                  ''s244444-DDDDD'', ''s255555-EEEEE'', ''s266666-FFFFF'', ''s277777-00000'']"

definition demo_admin_2fa :: admin_user where
  "demo_admin_2fa =
     demo_admin\<lparr>two_factor_enabled := True, two_factor_secret := Some ''JBSWY3DPEHPK3PXP'',
       two_factor_recovery_codes := demo_hashes, two_factor_confirmed_at := Some 500\<rparr>"

definition demo_admin_pending :: admin_user where
  "demo_admin_pending =
     demo_admin\<lparr>two_factor_temp_secret := Some ''JBSWY3DPEHPK3PXP'',
       two_factor_temp_recovery_codes := demo_hashes\<rparr>"

definition demo_challenge :: "uuid \<Rightarrow> login_challenge" where
  "demo_challenge n =
     \<lparr>c_id = n, admin_user_id = 1, created_at = 900, expires_at = 1200, consumed_at = None\<rparr>"

definition demo_db :: db where
  "demo_db = \<lparr>admin_users = [demo_admin], admin_login_challenges = [demo_challenge 7]\<rparr>"

definition demo_db_two :: db where
  "demo_db_two = \<lparr>admin_users = [demo_admin, demo_admin_capital], admin_login_challenges = []\<rparr>"

definition demo_db_2fa :: db where
  "demo_db_2fa =
     \<lparr>admin_users = [demo_admin_2fa], admin_login_challenges = [demo_challenge 7, demo_challenge 8]\<rparr>"

definition demo_db_pending :: db where
  "demo_db_pending = \<lparr>admin_users = [demo_admin_pending], admin_login_challenges = []\<rparr>"

definition demo_random20 :: bytea where
  "demo_random20 = [72, 101, 108, 108, 111, 33, 222, 173, 190, 239,
                    72, 101, 108, 108, 111, 33, 222, 173, 190, 239]"

section \<open>Evaluation rules\<close>

lemma replicate_numeral: "replicate (numeral k) x = x # replicate (pred_numeral k) x"
  by (simp add: numeral_eq_Suc)

lemma drift_window: "[- 1 .. 1] = [- 1, 0, 1::int]"
  by (simp add: upto.simps)

lemmas base32_eval = base32_decode_def cleaned_def coalesce_def base32_char_def ascii_upper_def
  dec_while.simps alphabet_def position_def

section \<open>base32_decode\<close>

lemma position_from_ge: "ch \<in> set s \<Longrightarrow> i \<le> position_from i ch s"
proof (induction s arbitrary: i)
  case Nil
  then show ?case by simp
next
  case (Cons c cs)
  show ?case
  proof (cases "c = ch")
    case True
    then show ?thesis by simp
  next
    case False
    with Cons.prems have "ch \<in> set cs" by simp
    from Cons.IH[OF this, of "i + 1"] False show ?thesis by simp
  qed
qed

lemma base32_char_alphabet: "base32_char c \<Longrightarrow> c \<in> set alphabet"
proof -
  assume a: "base32_char c"
  have r: "\<forall>n \<in> set ([65..<91] @ [50..<56]). char_of (n::nat) \<in> set alphabet"
    by (simp add: alphabet_def char_of_eq_iff)
  from a have "(of_char c :: nat) \<in> set ([65..<91] @ [50..<56])"
    by (simp add: base32_char_def del: upt_rec_numeral) arith
  with r have "char_of (of_char c :: nat) \<in> set alphabet" by blast
  then show ?thesis by simp
qed

lemma base32_char_position: "base32_char c \<Longrightarrow> 1 \<le> position c alphabet"
  using position_from_ge[OF base32_char_alphabet, of c 1] by (simp add: position_def)

lemma dec_loop_no_raise: "list_all base32_char cs \<Longrightarrow> \<exists>bs. dec_loop cs st = Inr bs"
proof (induction cs arbitrary: st)
  case Nil
  then show ?case by (cases st) auto
next
  case (Cons c cs)
  obtain buffer bits out where st: "st = (buffer, bits, out)" by (cases st) auto
  from Cons.prems have cs: "list_all base32_char cs" and "base32_char c"
    by simp_all
  then have c: "1 \<le> position c alphabet"
    using base32_char_position by blast
  obtain b' o' where w: "dec_while (push_bit 5 buffer + of_int (position c alphabet - 1)) (bits + 5) out = (b', o')"
    by (cases "dec_while (push_bit 5 buffer + of_int (position c alphabet - 1)) (bits + 5) out") auto
  from Cons.IH[OF cs] c show ?case by (simp add: st w)
qed

lemma cleaned_all: "list_all base32_char (cleaned e input)"
  by (simp add: cleaned_def list_all_iff)

lemma base32_decode_no_raise: "\<exists>bs. base32_decode e input = Inr bs"
  using dec_loop_no_raise[OF cleaned_all] by (simp add: base32_decode_def)

lemma cleaned_same_upper:
  "upper e s = upper e s' \<Longrightarrow> cleaned e (Some s) = cleaned e (Some s')"
  by (simp add: cleaned_def coalesce_def)

lemma cleaned_strip:
  "\<not> base32_char c \<Longrightarrow> upper e s = u1 @ c # u2 \<Longrightarrow> upper e s' = u1 @ u2
     \<Longrightarrow> cleaned e (Some s) = cleaned e (Some s')"
  by (simp add: cleaned_def coalesce_def)

text \<open>
  Claim C9 does not hold as stated: the cleaning expression removes every character
  outside \<open>[A-Z2-7]\<close>, the digits 0, 1, 8 and 9 among them, before the loop runs, so
  the \<open>RAISE EXCEPTION\<close> of the loop is never reached.
\<close>

theorem base32_decode_digits_counterexample:
  "CHR ''0'' \<in> set ''J0B1S8Q9'' \<and> \<not> base32_char (CHR ''0'')
   \<and> base32_decode (demo_env 1000) (Some ''J0B1S8Q9'') = Inr [72, 101]
   \<and> base32_decode (demo_env 1000) (Some ''JBSQ'') = Inr [72, 101]"
  by (simp add: base32_eval demo_env_def cong: prod.case_cong_weak)

text \<open>
  Claim C9, amended. \<open>base32_decode\<close> never reports an error. It upper-cases the
  input with \<open>upper\<close> and silently drops every character of the result that is outside
  \<open>[A-Z2-7]\<close>: two inputs whose upper-cased forms are equal decode alike, and so do
  two inputs whose upper-cased forms differ by one character outside \<open>[A-Z2-7]\<close>.
  NULL decodes to the empty byte string, and so does every input whose upper-cased
  form is empty.
\<close>

theorem base32_decode_strips_silently:
  "(\<exists>bs. base32_decode e input = Inr bs)
   \<and> (upper e s = upper e s' \<longrightarrow> base32_decode e (Some s) = base32_decode e (Some s'))
   \<and> (\<not> base32_char c \<and> upper e s = u1 @ c # u2 \<and> upper e s' = u1 @ u2 \<longrightarrow>
        base32_decode e (Some s) = base32_decode e (Some s'))
   \<and> (upper e s = [] \<longrightarrow> base32_decode e (Some s) = Inr [])
   \<and> (upper e [] = [] \<longrightarrow> base32_decode e None = Inr [])"
proof (intro conjI impI)
  show "\<exists>bs. base32_decode e input = Inr bs" by (rule base32_decode_no_raise)
  show "base32_decode e (Some s) = base32_decode e (Some s')" if "upper e s = upper e s'"
    using cleaned_same_upper[OF that] by (simp only: base32_decode_def)
  show "base32_decode e (Some s) = base32_decode e (Some s')"
    if "\<not> base32_char c \<and> upper e s = u1 @ c # u2 \<and> upper e s' = u1 @ u2"
  proof -
    from that have "cleaned e (Some s) = cleaned e (Some s')"
      using cleaned_strip[of c e s u1 u2 s'] by blast
    then show ?thesis by (simp only: base32_decode_def)
  qed
  show "base32_decode e (Some s) = Inr []" if "upper e s = []"
    using that by (simp add: base32_decode_def cleaned_def coalesce_def)
  show "base32_decode e None = Inr []" if "upper e [] = []"
    using that by (simp add: base32_decode_def cleaned_def coalesce_def)
qed

theorem base32_decode_strips_silently_witness:
  "upper (demo_env 1000) ''jbsq'' = upper (demo_env 1000) ''JBSQ''
   \<and> base32_decode (demo_env 1000) (Some ''jbsq'') = base32_decode (demo_env 1000) (Some ''JBSQ'')
   \<and> \<not> base32_char (CHR ''0'')
   \<and> upper (demo_env 1000) ''jb0sq'' = ''JB'' @ CHR ''0'' # ''SQ''
   \<and> base32_decode (demo_env 1000) (Some ''jb0sq'') = base32_decode (demo_env 1000) (Some ''JBSQ'')
   \<and> upper (demo_env 1000) [] = []
   \<and> base32_decode (demo_env 1000) (Some []) = Inr []
   \<and> base32_decode (demo_env 1000) None = Inr []"
proof -
  have u1: "upper (demo_env 1000) ''jbsq'' = upper (demo_env 1000) ''JBSQ''"
    and u2: "upper (demo_env 1000) ''jb0sq'' = ''JB'' @ CHR ''0'' # ''SQ''"
    and u3: "upper (demo_env 1000) ''JBSQ'' = ''JB'' @ ''SQ''"
    and u4: "upper (demo_env 1000) [] = []"
    by (simp_all add: demo_env_def ascii_upper_def)
  have n: "\<not> base32_char (CHR ''0'')" by (simp add: base32_char_def)
  from base32_decode_strips_silently[of "demo_env 1000" None "''jbsq''" "''JBSQ''" "CHR ''0''" "''JB''" "''SQ''"] u1
  have a: "base32_decode (demo_env 1000) (Some ''jbsq'') = base32_decode (demo_env 1000) (Some ''JBSQ'')"
    by blast
  from base32_decode_strips_silently[of "demo_env 1000" None "''jb0sq''" "''JBSQ''" "CHR ''0''" "''JB''" "''SQ''"] n u2 u3
  have b: "base32_decode (demo_env 1000) (Some ''jb0sq'') = base32_decode (demo_env 1000) (Some ''JBSQ'')"
    by blast
  from base32_decode_strips_silently[of "demo_env 1000" None "[]" "[]" "CHR ''0''" "''JB''" "''SQ''"] u4
  have c: "base32_decode (demo_env 1000) (Some []) = Inr []" "base32_decode (demo_env 1000) None = Inr []"
    by blast+
  from u1 a n u2 b u4 c show ?thesis by (intro conjI)
qed

section \<open>base32_encode\<close>

lemma enc_loop_raises:
  "enc_loop (b # bs) (buffer, bits, out) = Inl (Undefined_function ''substr(text, bigint, integer)'')"
  by (simp add: enc_while_def)

text \<open>
  Claim C4 is not met by the code. \<open>base32_encode\<close> raises on every non-empty byte
  string, in the first run of its inner loop, so there is no encoded text to decode;
  only the empty byte string and NULL are encoded (to the empty string), and the
  empty string decodes to the empty byte string.
\<close>

theorem base32_encode_raises:
  "base32_encode (Some (b # bs)) = Inl (Undefined_function ''substr(text, bigint, integer)'')
   \<and> base32_encode (Some [72, 101]) = Inl (Undefined_function ''substr(text, bigint, integer)'')
   \<and> base32_encode (Some []) = Inr [] \<and> base32_encode None = Inr []
   \<and> base32_decode (demo_env 1000) (Some []) = Inr []"
  by (simp add: base32_encode_def enc_while_def base32_decode_def cleaned_def coalesce_def demo_env_def)

section \<open>admin_totp_is_valid\<close>

lemma totp_loop_raises:
  "totp_loop e secret_bytes timestep code (i # rest)
     = Inl (Undefined_function ''set_byte(bytea, integer, bigint)'')"
  by (simp add: int8_to_bytea_def)

lemma totp_raises:
  assumes "base32_decode e (Some s) = Inr (b # bs)" and "trim c \<noteq> []"
  shows "admin_totp_is_valid e (Some s) (Some c) 1
           = Inl (Undefined_function ''set_byte(bytea, integer, bigint)'')"
  using assms by (simp add: admin_totp_is_valid_def drift_window int8_to_bytea_def)

lemma totp_false_cases:
  "admin_totp_is_valid e None code k = Inr False"
  "admin_totp_is_valid e secret None k = Inr False"
  "trim c = [] \<Longrightarrow> admin_totp_is_valid e secret (Some c) k = Inr False"
  "base32_decode e (Some s) = Inr [] \<Longrightarrow> admin_totp_is_valid e (Some s) code k = Inr False"
proof -
  show "admin_totp_is_valid e None code k = Inr False"
    by (simp add: admin_totp_is_valid_def)
  show "admin_totp_is_valid e secret None k = Inr False"
    by (cases secret) (simp_all add: admin_totp_is_valid_def)
  show "admin_totp_is_valid e secret (Some c) k = Inr False" if "trim c = []"
    using that by (cases secret) (simp_all add: admin_totp_is_valid_def)
  show "admin_totp_is_valid e (Some s) code k = Inr False" if "base32_decode e (Some s) = Inr []"
    using that by (cases code) (simp_all add: admin_totp_is_valid_def)
qed

lemma totp_blank: "blank code \<Longrightarrow> admin_totp_is_valid e secret code k = Inr False"
  by (cases code) (simp_all add: blank_def totp_false_cases)

lemma totp_result:
  "admin_totp_is_valid e secret code 1 = Inr False
   \<or> admin_totp_is_valid e secret code 1 = Inl (Undefined_function ''set_byte(bytea, integer, bigint)'')"
proof (cases secret)
  case None
  then show ?thesis by (simp add: totp_false_cases)
next
  case (Some s)
  show ?thesis
  proof (cases code)
    case None
    then show ?thesis by (simp add: totp_false_cases)
  next
    case c: (Some c)
    obtain bs where bs: "base32_decode e (Some s) = Inr bs"
      using base32_decode_no_raise by blast
    show ?thesis
    proof (cases "trim c = []")
      case True
      then show ?thesis using c by (simp add: totp_false_cases)
    next
      case False
      show ?thesis
      proof (cases bs)
        case Nil
        with bs show ?thesis using Some by (simp add: totp_false_cases)
      next
        case (Cons b bs')
        with bs totp_raises[of e s b bs' c] False show ?thesis using Some c by simp
      qed
    qed
  qed
qed

lemma demo_secret_bytes:
  "base32_decode (demo_env t) (Some ''JBSWY3DPEHPK3PXP'') = Inr [72, 101, 108, 108, 111, 33, 222, 173, 190, 239]"
  by (simp add: base32_eval demo_env_def cong: prod.case_cong_weak)

lemma demo_totp_raises:
  "trim c \<noteq> [] \<Longrightarrow>
     admin_totp_is_valid (demo_env t) (Some ''JBSWY3DPEHPK3PXP'') (Some c) 1
       = Inl (Undefined_function ''set_byte(bytea, integer, bigint)'')"
  using demo_secret_bytes by (rule totp_raises)

text \<open>
  Claim C1 is not met by the code. \<open>admin_totp_is_valid\<close> never returns true: with a
  secret that decodes to at least one byte and a code that is not blank, the first run
  of its loop raises in \<open>int8_to_bytea\<close>, before any code is computed. It returns
  false for a NULL secret, a NULL or blank code and a secret that decodes to no byte.
\<close>

theorem totp_never_accepts:
  "admin_totp_is_valid e secret code 1 \<noteq> Inr True
   \<and> (base32_decode e (Some s) = Inr (b # bs) \<and> trim c \<noteq> [] \<longrightarrow>
        admin_totp_is_valid e (Some s) (Some c) 1
          = Inl (Undefined_function ''set_byte(bytea, integer, bigint)''))
   \<and> admin_totp_is_valid e None code 1 = Inr False
   \<and> admin_totp_is_valid e secret None 1 = Inr False
   \<and> (trim c = [] \<longrightarrow> admin_totp_is_valid e secret (Some c) 1 = Inr False)
   \<and> (base32_decode e (Some s) = Inr [] \<longrightarrow> admin_totp_is_valid e (Some s) code 1 = Inr False)"
proof (intro conjI impI)
  show "admin_totp_is_valid e secret code 1 \<noteq> Inr True"
    using totp_result[of e secret code] by auto
  show "admin_totp_is_valid e (Some s) (Some c) 1
          = Inl (Undefined_function ''set_byte(bytea, integer, bigint)'')"
    if "base32_decode e (Some s) = Inr (b # bs) \<and> trim c \<noteq> []"
    using that totp_raises by blast
qed (simp_all add: totp_false_cases)

theorem totp_never_accepts_witness:
  "base32_decode (demo_env 1700000000) (Some ''JBSWY3DPEHPK3PXP'')
     = Inr (72 # [101, 108, 108, 111, 33, 222, 173, 190, 239])
   \<and> trim ''324550'' \<noteq> []
   \<and> admin_totp_is_valid (demo_env 1700000000) (Some ''JBSWY3DPEHPK3PXP'') (Some ''324550'') 1
       = Inl (Undefined_function ''set_byte(bytea, integer, bigint)'')
   \<and> trim ''  '' = []
   \<and> admin_totp_is_valid (demo_env 1700000000) (Some ''JBSWY3DPEHPK3PXP'') (Some ''  '') 1 = Inr False
   \<and> base32_decode (demo_env 1700000000) (Some ''0189'') = Inr []
   \<and> admin_totp_is_valid (demo_env 1700000000) (Some ''0189'') (Some ''324550'') 1 = Inr False"
proof -
  have t1: "trim ''324550'' \<noteq> []" and t2: "trim ''  '' = []"
    by (simp_all add: trim_def)
  have d: "base32_decode (demo_env 1700000000) (Some ''0189'') = Inr []"
    by (simp add: base32_eval demo_env_def)
  have s: "base32_decode (demo_env 1700000000) (Some ''JBSWY3DPEHPK3PXP'')
     = Inr (72 # [101, 108, 108, 111, 33, 222, 173, 190, 239])"
    by (rule demo_secret_bytes)
  note T = totp_never_accepts[of "demo_env 1700000000" "Some ''JBSWY3DPEHPK3PXP''" "Some ''324550''"
      "''JBSWY3DPEHPK3PXP''" 72 "[101, 108, 108, 111, 33, 222, 173, 190, 239]" "''324550''"]
  note U = totp_never_accepts[of "demo_env 1700000000" "Some ''JBSWY3DPEHPK3PXP''" "Some ''324550''"
      "''0189''" 72 "[]" "''  ''"]
  from T s t1 have a: "admin_totp_is_valid (demo_env 1700000000) (Some ''JBSWY3DPEHPK3PXP'') (Some ''324550'') 1
       = Inl (Undefined_function ''set_byte(bytea, integer, bigint)'')"
    by blast
  from U t2 have b: "admin_totp_is_valid (demo_env 1700000000) (Some ''JBSWY3DPEHPK3PXP'') (Some ''  '') 1 = Inr False"
    by blast
  from U d have c: "admin_totp_is_valid (demo_env 1700000000) (Some ''0189'') (Some ''324550'') 1 = Inr False"
    by blast
  from s t1 a t2 b d c show ?thesis by (intro conjI)
qed

section \<open>admin_verify_two_factor\<close>

text \<open>
  Claim C2 is not met by the code. Every call of \<open>admin_verify_two_factor\<close> raises at
  its first statement and returns no row: no call succeeds, none sets \<open>consumed_at\<close>,
  and a second call with a challenge id is not answered by the row 'Challenge expired or
  invalid', nor a call with a wrong code by the row 'Invalid authentication code'.
\<close>

theorem verify_always_raises:
  "admin_verify_two_factor e d challenge otp_code = Inl (Ambiguous_column ''id'')
   \<and> admin_verify_two_factor e d challenge otp_code \<noteq> Inr (row, d')"
  by (simp add: admin_verify_two_factor_def)

text \<open>
  Claim C7 is not met by the code. For a stored challenge that is unconsumed and
  unexpired and whose account has \<open>two_factor_enabled\<close> false or no active secret,
  the call raises for every code and returns no row: the challenge is not consumed and no
  identity is returned.
\<close>

theorem verify_raises_for_disabled_account:
  assumes "rc \<in> set (admin_login_challenges d)"
      and "consumed_at rc = None"
      and "now e < expires_at rc"
      and "find (\<lambda>a. a_id a = admin_user_id rc) (admin_users d) = Some account"
      and "\<not> two_factor_enabled account \<or> two_factor_secret account = None"
  shows "admin_verify_two_factor e d (c_id rc) otp_code = Inl (Ambiguous_column ''id'')
         \<and> admin_verify_two_factor e d (c_id rc) otp_code \<noteq> Inr (row, d')"
  by (simp add: admin_verify_two_factor_def)

theorem verify_raises_for_disabled_account_witness:
  "demo_challenge 7 \<in> set (admin_login_challenges demo_db)
   \<and> c_id (demo_challenge 7) = 7
   \<and> consumed_at (demo_challenge 7) = None
   \<and> now (demo_env 1000) < expires_at (demo_challenge 7)
   \<and> find (\<lambda>a. a_id a = admin_user_id (demo_challenge 7)) (admin_users demo_db) = Some demo_admin
   \<and> two_factor_enabled demo_admin = False
   \<and> admin_verify_two_factor (demo_env 1000) demo_db 7 (Some ''wrong'') = Inl (Ambiguous_column ''id'')"
proof -
  have h: "demo_challenge 7 \<in> set (admin_login_challenges demo_db)"
    "consumed_at (demo_challenge 7) = None"
    "now (demo_env 1000) < expires_at (demo_challenge 7)"
    "find (\<lambda>a. a_id a = admin_user_id (demo_challenge 7)) (admin_users demo_db) = Some demo_admin"
    "\<not> two_factor_enabled demo_admin \<or> two_factor_secret demo_admin = None"
    and i: "c_id (demo_challenge 7) = 7" "two_factor_enabled demo_admin = False"
    by (simp_all add: demo_db_def demo_challenge_def demo_admin_def demo_env_def)
  from verify_raises_for_disabled_account[OF h, of "Some ''wrong''"] h i show ?thesis
    by simp
qed

section \<open>Recovery codes\<close>

lemma after_take_users:
  "admin_users (update_admin_users e 1 (remove_code h) demo_db_2fa)
     = [update_updated_at_column e (remove_code h demo_admin_2fa)]"
  by (simp add: update_admin_users_def demo_db_2fa_def demo_admin_2fa_def demo_admin_def)

lemma after_take_fields:
  "a_id (update_updated_at_column e (remove_code h a)) = a_id a"
  "two_factor_recovery_codes (update_updated_at_column e (remove_code h a))
     = removeAll h (two_factor_recovery_codes a)"
  by (simp_all add: update_updated_at_column_def remove_code_def)

lemma demo_2fa_fields:
  "a_id demo_admin_2fa = 1" "two_factor_recovery_codes demo_admin_2fa = demo_hashes"
  by (simp_all add: demo_admin_2fa_def demo_admin_def)

text \<open>
  Claim C3 is not met by the code on the path through \<open>admin_verify_two_factor\<close>. The
  account holds eight recovery hashes. \<open>admin_take_recovery_code\<close> consumes the
  second code of the batch: it returns true and the stored list is the other seven hashes;
  on the tables that result the same code returns false and changes nothing, and another
  code of the batch is still taken. Presented to \<open>admin_verify_two_factor\<close> with a
  valid challenge of the account, the code makes the call raise, and no hash is removed.
\<close>

theorem recovery_code_raises_in_verify:
  "two_factor_recovery_codes demo_admin_2fa = demo_hashes
   \<and> length demo_hashes = 8
   \<and> crypt (demo_env 1000) ''11111-AAAAA'' ''s211111-AAAAA'' = ''s211111-AAAAA''
   \<and> admin_take_recovery_code (demo_env 1000) demo_db_2fa 1 (Some ''11111-AAAAA'')
       = (True, update_admin_users (demo_env 1000) 1 (remove_code ''s211111-AAAAA'') demo_db_2fa)
   \<and> two_factor_recovery_codes
        (update_updated_at_column (demo_env 1000) (remove_code ''s211111-AAAAA'' demo_admin_2fa))
       = [''s20A1B2-C3D4E'', ''s222222-BBBBB'', ''s233333-CCCCC'', ''s244444-DDDDD'',
          ''s255555-EEEEE'', ''s266666-FFFFF'', ''s277777-00000'']
   \<and> admin_take_recovery_code (demo_env 1000)
        (update_admin_users (demo_env 1000) 1 (remove_code ''s211111-AAAAA'') demo_db_2fa)
        1 (Some ''11111-AAAAA'')
       = (False, update_admin_users (demo_env 1000) 1 (remove_code ''s211111-AAAAA'') demo_db_2fa)
   \<and> fst (admin_take_recovery_code (demo_env 1000)
        (update_admin_users (demo_env 1000) 1 (remove_code ''s211111-AAAAA'') demo_db_2fa)
        1 (Some ''77777-00000'')) = True
   \<and> demo_challenge 7 \<in> set (admin_login_challenges demo_db_2fa)
   \<and> consumed_at (demo_challenge 7) = None
   \<and> now (demo_env 1000) < expires_at (demo_challenge 7)
   \<and> admin_verify_two_factor (demo_env 1000) demo_db_2fa 7 (Some ''11111-AAAAA'')
       = Inl (Ambiguous_column ''id'')"
proof (intro conjI)
  show "admin_take_recovery_code (demo_env 1000) demo_db_2fa 1 (Some ''11111-AAAAA'')
       = (True, update_admin_users (demo_env 1000) 1 (remove_code ''s211111-AAAAA'') demo_db_2fa)"
    by (simp add: admin_take_recovery_code_def demo_db_2fa_def demo_2fa_fields demo_hashes_def
        demo_env_def demo_crypt_def trim_def)
  show "admin_take_recovery_code (demo_env 1000)
        (update_admin_users (demo_env 1000) 1 (remove_code ''s211111-AAAAA'') demo_db_2fa)
        1 (Some ''11111-AAAAA'')
       = (False, update_admin_users (demo_env 1000) 1 (remove_code ''s211111-AAAAA'') demo_db_2fa)"
    unfolding admin_take_recovery_code_def after_take_users
    by (simp add: after_take_fields demo_2fa_fields demo_hashes_def demo_env_def demo_crypt_def
        trim_def)
  show "fst (admin_take_recovery_code (demo_env 1000)
        (update_admin_users (demo_env 1000) 1 (remove_code ''s211111-AAAAA'') demo_db_2fa)
        1 (Some ''77777-00000'')) = True"
    unfolding admin_take_recovery_code_def after_take_users
    by (simp add: after_take_fields demo_2fa_fields demo_hashes_def demo_env_def demo_crypt_def
        trim_def)
qed (simp_all add: admin_verify_two_factor_def after_take_fields demo_2fa_fields demo_hashes_def
    demo_db_2fa_def demo_challenge_def demo_env_def demo_crypt_def)

section \<open>Rejection rows\<close>

lemma start_with_credentials:
  assumes "credentials_pass e d em pw" and "length random20 = 20"
  shows "admin_start_two_factor e random20 random5 salt d em pw
           = Inl (Undefined_function ''substr(text, bigint, integer)'')"
proof -
  from assms(2) obtain b bs where r: "random20 = b # bs" by (cases random20) auto
  have enc: "base32_encode (Some (b # bs)) = Inl (Undefined_function ''substr(text, bigint, integer)'')"
    by (simp add: base32_encode_def enc_while_def)
  show ?thesis
  proof (cases "find (\<lambda>a. a_email a = em) (admin_users d)")
    case None
    then show ?thesis using assms(1) by (simp add: credentials_pass_def)
  next
    case (Some a)
    then show ?thesis using assms(1) enc
      by (simp add: credentials_pass_def admin_start_two_factor_def r)
  qed
qed

lemma start_without_credentials:
  assumes "\<not> credentials_pass e d em pw"
  shows "admin_start_two_factor e random20 random5 salt d em pw = Inl (Raise_exception ''Invalid credentials'')"
  using assms
  by (cases "find (\<lambda>a. a_email a = em) (admin_users d)")
     (simp_all add: credentials_pass_def admin_start_two_factor_def)

lemma login_without_credentials:
  "\<not> credentials_pass e d em pw \<Longrightarrow> admin_login e d em pw = Inr (login_rejected, d)"
  by (cases "find (\<lambda>a. a_email a = em) (admin_users d)")
     (simp_all add: credentials_pass_def admin_login_def)

lemma confirm_without_credentials:
  "\<not> credentials_pass e d em pw \<Longrightarrow>
     admin_confirm_two_factor e d em pw code = Inr (status_rejected ''Invalid credentials'', d)"
  by (cases "find (\<lambda>a. a_email a = em) (admin_users d)")
     (simp_all add: credentials_pass_def admin_confirm_two_factor_def)

lemma disable_without_credentials:
  "\<not> credentials_pass e d em pw \<Longrightarrow>
     admin_disable_two_factor e d em pw code = Inr (status_rejected ''Invalid credentials'', d)"
  by (cases "find (\<lambda>a. a_email a = em) (admin_users d)")
     (simp_all add: credentials_pass_def admin_disable_two_factor_def)

lemma take_blank: "blank code \<Longrightarrow> admin_take_recovery_code e d uid code = (False, d)"
  by (cases code) (simp_all add: blank_def admin_take_recovery_code_def)

lemma confirm_no_pending:
  assumes "find (\<lambda>a. a_email a = em) (admin_users d) = Some a" and "\<not> password_mismatch e a pw"
      and "two_factor_temp_secret a = None"
  shows "admin_confirm_two_factor e d em pw code = Inr (status_rejected ''No pending setup found'', d)"
  using assms by (simp add: admin_confirm_two_factor_def)

lemma confirm_blank:
  assumes "find (\<lambda>a. a_email a = em) (admin_users d) = Some a" and "\<not> password_mismatch e a pw"
      and "two_factor_temp_secret a \<noteq> None" and "blank code"
  shows "admin_confirm_two_factor e d em pw code = Inr (status_rejected ''Verification code is invalid'', d)"
proof -
  from assms(3) obtain s where s: "two_factor_temp_secret a = Some s" by auto
  from totp_blank[OF assms(4), of e "Some s" 1] assms(1,2) s show ?thesis
    by (simp add: admin_confirm_two_factor_def)
qed

lemma disable_not_enabled:
  assumes "find (\<lambda>a. a_email a = em) (admin_users d) = Some a" and "\<not> password_mismatch e a pw"
      and "\<not> two_factor_enabled a"
  shows "admin_disable_two_factor e d em pw code
           = Inr (status_rejected ''Two-factor authentication is not enabled'', d)"
  using assms by (simp add: admin_disable_two_factor_def)

lemma disable_blank:
  assumes "find (\<lambda>a. a_email a = em) (admin_users d) = Some a" and "\<not> password_mismatch e a pw"
      and "two_factor_enabled a" and "blank code"
  shows "admin_disable_two_factor e d em pw code = Inr (status_rejected ''Invalid authentication code'', d)"
  using assms(1-3) totp_blank[OF assms(4), of e "two_factor_secret a" 1] take_blank[OF assms(4), of e d "a_id a"]
  by (simp add: admin_disable_two_factor_def)

lemma confirm_raises:
  assumes "find (\<lambda>a. a_email a = em) (admin_users d) = Some a"
      and "\<not> password_mismatch e a pw"
      and "two_factor_temp_secret a = Some s"
      and "base32_decode e (Some s) = Inr (b # bs)"
      and "trim c \<noteq> []"
  shows "admin_confirm_two_factor e d em pw (Some c)
           = Inl (Undefined_function ''set_byte(bytea, integer, bigint)'')"
  using assms totp_raises[OF assms(4,5)] by (simp add: admin_confirm_two_factor_def)

lemma demo_lookup:
  "find (\<lambda>b. a_email b = ''admin@example.com'') (admin_users demo_db) = Some demo_admin"
  "\<not> password_mismatch (demo_env t) demo_admin (Some ''ChangeThis'')"
  "password_mismatch (demo_env t) demo_admin (Some ''wrong'')"
  "credentials_pass (demo_env t) demo_db ''admin@example.com'' (Some ''ChangeThis'')"
  "\<not> credentials_pass (demo_env t) demo_db ''admin@example.com'' (Some ''wrong'')"
  "two_factor_enabled demo_admin = False"
  "two_factor_temp_secret demo_admin = None"
  by (simp_all add: credentials_pass_def password_mismatch_def demo_db_def demo_admin_def
      demo_env_def demo_crypt_def)

lemma demo_pending_lookup:
  "find (\<lambda>b. a_email b = ''admin@example.com'') (admin_users demo_db_pending) = Some demo_admin_pending"
  "\<not> password_mismatch (demo_env t) demo_admin_pending (Some ''ChangeThis'')"
  "two_factor_temp_secret demo_admin_pending = Some ''JBSWY3DPEHPK3PXP''"
  by (simp_all add: password_mismatch_def demo_db_pending_def demo_admin_pending_def demo_admin_def
      demo_env_def demo_crypt_def)

lemma demo_2fa_lookup:
  "find (\<lambda>b. a_email b = ''admin@example.com'') (admin_users demo_db_2fa) = Some demo_admin_2fa"
  "\<not> password_mismatch (demo_env t) demo_admin_2fa (Some ''ChangeThis'')"
  "two_factor_enabled demo_admin_2fa"
  "two_factor_secret demo_admin_2fa = Some ''JBSWY3DPEHPK3PXP''"
  by (simp_all add: password_mismatch_def demo_db_2fa_def demo_admin_2fa_def demo_admin_def
      demo_env_def demo_crypt_def)

section \<open>Enrollment\<close>

lemma confirm_unchanged:
  assumes "admin_confirm_two_factor e d em pw code = Inr (row, d')"
  shows "d' = d \<and> s_success row = False"
proof (cases "find (\<lambda>a. a_email a = em) (admin_users d)")
  case None
  then show ?thesis using assms by (auto simp add: admin_confirm_two_factor_def status_rejected_def)
next
  case (Some a)
  from totp_result[of e "two_factor_temp_secret a" code]
  show ?thesis
  proof
    assume "admin_totp_is_valid e (two_factor_temp_secret a) code 1 = Inr False"
    then show ?thesis using Some assms
      by (auto simp add: admin_confirm_two_factor_def status_rejected_def split: if_split_asm)
  next
    assume "admin_totp_is_valid e (two_factor_temp_secret a) code 1
              = Inl (Undefined_function ''set_byte(bytea, integer, bigint)'')"
    then show ?thesis using Some assms
      by (auto simp add: admin_confirm_two_factor_def status_rejected_def split: if_split_asm)
  qed
qed

text \<open>
  Claim C5 is not met by the code. With an email and a password that pass the
  credential check, \<open>admin_start_two_factor\<close> raises in \<open>base32_encode\<close> before its
  \<open>UPDATE\<close>, so it writes no pending secret and returns none (without them it raises
  'Invalid credentials'). Whenever \<open>admin_confirm_two_factor\<close> returns a row, the row
  has \<open>success = false\<close> and the tables are unchanged, so nothing is ever promoted;
  given a pending secret that decodes to at least one byte and a code that is not blank,
  it returns no row but raises in \<open>admin_totp_is_valid\<close>.
\<close>

theorem enrollment_never_completes:
  "(length random20 = 20 \<and> credentials_pass e d em pw \<longrightarrow>
      admin_start_two_factor e random20 random5 salt d em pw
        = Inl (Undefined_function ''substr(text, bigint, integer)''))
   \<and> (\<not> credentials_pass e d em pw \<longrightarrow>
      admin_start_two_factor e random20 random5 salt d em pw
        = Inl (Raise_exception ''Invalid credentials''))
   \<and> (admin_confirm_two_factor e d em pw code = Inr (row, d') \<longrightarrow>
        d' = d \<and> s_success row = False)
   \<and> (find (\<lambda>a. a_email a = em) (admin_users d) = Some a
        \<and> \<not> password_mismatch e a pw
        \<and> two_factor_temp_secret a = Some s
        \<and> base32_decode e (Some s) = Inr (b # bs)
        \<and> trim c \<noteq> [] \<longrightarrow>
      admin_confirm_two_factor e d em pw (Some c)
        = Inl (Undefined_function ''set_byte(bytea, integer, bigint)''))"
proof (intro conjI impI)
  show "admin_start_two_factor e random20 random5 salt d em pw
        = Inl (Undefined_function ''substr(text, bigint, integer)'')"
    if "length random20 = 20 \<and> credentials_pass e d em pw"
    using that start_with_credentials by blast
  show "admin_start_two_factor e random20 random5 salt d em pw
        = Inl (Raise_exception ''Invalid credentials'')"
    if "\<not> credentials_pass e d em pw"
    using that by (rule start_without_credentials)
  show "d' = d" if "admin_confirm_two_factor e d em pw code = Inr (row, d')"
    using confirm_unchanged[OF that] by (rule conjunct1)
  show "s_success row = False" if "admin_confirm_two_factor e d em pw code = Inr (row, d')"
    using confirm_unchanged[OF that] by (rule conjunct2)
  show "admin_confirm_two_factor e d em pw (Some c)
        = Inl (Undefined_function ''set_byte(bytea, integer, bigint)'')"
    if "find (\<lambda>a. a_email a = em) (admin_users d) = Some a
        \<and> \<not> password_mismatch e a pw
        \<and> two_factor_temp_secret a = Some s
        \<and> base32_decode e (Some s) = Inr (b # bs)
        \<and> trim c \<noteq> []"
    using that confirm_raises by blast
qed

theorem enrollment_never_completes_witness:
  "length demo_random20 = 20
   \<and> credentials_pass (demo_env 1000) demo_db ''admin@example.com'' (Some ''ChangeThis'')
   \<and> admin_start_two_factor (demo_env 1000) demo_random20 (\<lambda>i. [10, 27, 44, 61, 78]) (\<lambda>i. ''s2'')
        demo_db ''admin@example.com'' (Some ''ChangeThis'')
      = Inl (Undefined_function ''substr(text, bigint, integer)'')
   \<and> \<not> credentials_pass (demo_env 1000) demo_db ''admin@example.com'' (Some ''wrong'')
   \<and> admin_start_two_factor (demo_env 1000) demo_random20 (\<lambda>i. [10, 27, 44, 61, 78]) (\<lambda>i. ''s2'')
        demo_db ''admin@example.com'' (Some ''wrong'')
      = Inl (Raise_exception ''Invalid credentials'')
   \<and> find (\<lambda>a. a_email a = ''admin@example.com'') (admin_users demo_db_pending) = Some demo_admin_pending
   \<and> two_factor_temp_secret demo_admin_pending = Some ''JBSWY3DPEHPK3PXP''
   \<and> admin_confirm_two_factor (demo_env 1700000000) demo_db_pending ''admin@example.com''
        (Some ''ChangeThis'') (Some ''324550'')
      = Inl (Undefined_function ''set_byte(bytea, integer, bigint)'')
   \<and> admin_confirm_two_factor (demo_env 1700000000) demo_db_pending ''admin@example.com''
        (Some ''ChangeThis'') (Some ''  '')
      = Inr (status_rejected ''Verification code is invalid'', demo_db_pending)
   \<and> s_success (status_rejected ''Verification code is invalid'') = False"
proof -
  have l: "length demo_random20 = 20" by (simp add: demo_random20_def)
  have t: "trim ''324550'' \<noteq> []" by (simp add: trim_def)
  from enrollment_never_completes[of demo_random20 "demo_env 1000" demo_db "''admin@example.com''"
      "Some ''ChangeThis''" "\<lambda>i. [10, 27, 44, 61, 78]" "\<lambda>i. ''s2''"] l demo_lookup(4)
  have a: "admin_start_two_factor (demo_env 1000) demo_random20 (\<lambda>i. [10, 27, 44, 61, 78]) (\<lambda>i. ''s2'')
        demo_db ''admin@example.com'' (Some ''ChangeThis'')
      = Inl (Undefined_function ''substr(text, bigint, integer)'')"
    by blast
  from enrollment_never_completes[of demo_random20 "demo_env 1000" demo_db "''admin@example.com''"
      "Some ''wrong''" "\<lambda>i. [10, 27, 44, 61, 78]" "\<lambda>i. ''s2''"] demo_lookup(5)
  have b: "admin_start_two_factor (demo_env 1000) demo_random20 (\<lambda>i. [10, 27, 44, 61, 78]) (\<lambda>i. ''s2'')
        demo_db ''admin@example.com'' (Some ''wrong'')
      = Inl (Raise_exception ''Invalid credentials'')"
    by blast
  from enrollment_never_completes[where e = "demo_env 1700000000" and d = demo_db_pending
      and em = "''admin@example.com''" and pw = "Some ''ChangeThis''" and a = demo_admin_pending
      and s = "''JBSWY3DPEHPK3PXP''" and b = 72 and bs = "[101, 108, 108, 111, 33, 222, 173, 190, 239]"
      and c = "''324550''"]
    demo_pending_lookup demo_secret_bytes t
  have c: "admin_confirm_two_factor (demo_env 1700000000) demo_db_pending ''admin@example.com''
        (Some ''ChangeThis'') (Some ''324550'')
      = Inl (Undefined_function ''set_byte(bytea, integer, bigint)'')"
    by blast
  have bl: "blank (Some ''  '')" by (simp add: blank_def trim_def)
  have p: "two_factor_temp_secret demo_admin_pending \<noteq> None"
    by (simp add: demo_pending_lookup(3))
  have r: "admin_confirm_two_factor (demo_env 1700000000) demo_db_pending ''admin@example.com''
        (Some ''ChangeThis'') (Some ''  '')
      = Inr (status_rejected ''Verification code is invalid'', demo_db_pending)"
    using demo_pending_lookup(1) demo_pending_lookup(2)[of 1700000000] p bl
    by (rule confirm_blank)
  from enrollment_never_completes[where e = "demo_env 1700000000" and d = demo_db_pending
      and em = "''admin@example.com''" and pw = "Some ''ChangeThis''" and code = "Some ''  ''"
      and row = "status_rejected ''Verification code is invalid''" and d' = demo_db_pending,
      THEN conjunct2, THEN conjunct2, THEN conjunct1, THEN mp, OF r]
  have s: "s_success (status_rejected ''Verification code is invalid'') = False"
    by (rule conjunct2)
  from l demo_lookup(4) a demo_lookup(5) b demo_pending_lookup(1,3) c r s show ?thesis
    by (intro conjI)
qed

section \<open>admin_disable_two_factor\<close>

text \<open>
  Claim C6 is not met by the code. For an account found by its email, with a password
  that passes the check: if 2FA is off the call is rejected with 'Two-factor
  authentication is not enabled', and if 2FA is on and the code is blank it is rejected
  with 'Invalid authentication code', the tables unchanged in both cases. But if 2FA is
  on, the stored secret decodes to at least one byte and the code is not blank, the call
  raises in \<open>admin_totp_is_valid\<close>, whether the code is the current TOTP code, an
  unused recovery code or neither: nothing is cleared, the recovery codes are never looked
  at, and no row is returned.
\<close>

theorem disable_raises_on_code:
  assumes "find (\<lambda>a. a_email a = em) (admin_users d) = Some a"
      and "\<not> password_mismatch e a pw"
  shows "(\<not> two_factor_enabled a \<longrightarrow>
            admin_disable_two_factor e d em pw code
              = Inr (status_rejected ''Two-factor authentication is not enabled'', d))
         \<and> (two_factor_enabled a \<and> two_factor_secret a = Some s
              \<and> base32_decode e (Some s) = Inr (b # bs) \<and> trim c \<noteq> [] \<longrightarrow>
            admin_disable_two_factor e d em pw (Some c)
              = Inl (Undefined_function ''set_byte(bytea, integer, bigint)''))
         \<and> (two_factor_enabled a \<and> blank code \<longrightarrow>
            admin_disable_two_factor e d em pw code
              = Inr (status_rejected ''Invalid authentication code'', d))"
proof (intro conjI impI)
  show "admin_disable_two_factor e d em pw code
          = Inr (status_rejected ''Two-factor authentication is not enabled'', d)"
    if "\<not> two_factor_enabled a"
    using assms that by (rule disable_not_enabled)
  show "admin_disable_two_factor e d em pw (Some c)
          = Inl (Undefined_function ''set_byte(bytea, integer, bigint)'')"
    if h: "two_factor_enabled a \<and> two_factor_secret a = Some s
              \<and> base32_decode e (Some s) = Inr (b # bs) \<and> trim c \<noteq> []"
  proof -
    from h have "admin_totp_is_valid e (Some s) (Some c) 1
                   = Inl (Undefined_function ''set_byte(bytea, integer, bigint)'')"
      using totp_raises by blast
    then show ?thesis using assms h by (simp add: admin_disable_two_factor_def)
  qed
  show "admin_disable_two_factor e d em pw code
          = Inr (status_rejected ''Invalid authentication code'', d)"
    if "two_factor_enabled a \<and> blank code"
    using assms that disable_blank by blast
qed

theorem disable_raises_on_code_witness:
  "find (\<lambda>a. a_email a = ''admin@example.com'') (admin_users demo_db_2fa) = Some demo_admin_2fa
   \<and> two_factor_enabled demo_admin_2fa
   \<and> ''s211111-AAAAA'' \<in> set (two_factor_recovery_codes demo_admin_2fa)
   \<and> crypt (demo_env 1700000000) ''11111-AAAAA'' ''s211111-AAAAA'' = ''s211111-AAAAA''
   \<and> admin_disable_two_factor (demo_env 1700000000) demo_db_2fa ''admin@example.com''
        (Some ''ChangeThis'') (Some ''11111-AAAAA'')
      = Inl (Undefined_function ''set_byte(bytea, integer, bigint)'')
   \<and> admin_disable_two_factor (demo_env 1700000000) demo_db_2fa ''admin@example.com''
        (Some ''ChangeThis'') (Some ''324550'')
      = Inl (Undefined_function ''set_byte(bytea, integer, bigint)'')
   \<and> admin_disable_two_factor (demo_env 1700000000) demo_db_2fa ''admin@example.com''
        (Some ''ChangeThis'') None
      = Inr (status_rejected ''Invalid authentication code'', demo_db_2fa)
   \<and> admin_disable_two_factor (demo_env 1700000000) demo_db ''admin@example.com''
        (Some ''ChangeThis'') (Some ''324550'')
      = Inr (status_rejected ''Two-factor authentication is not enabled'', demo_db)"
proof -
  have t: "trim ''11111-AAAAA'' \<noteq> []" "trim ''324550'' \<noteq> []" by (simp_all add: trim_def)
  have bl: "blank None" by (simp add: blank_def)
  have h: "''s211111-AAAAA'' \<in> set (two_factor_recovery_codes demo_admin_2fa)"
    "crypt (demo_env 1700000000) ''11111-AAAAA'' ''s211111-AAAAA'' = ''s211111-AAAAA''"
    by (simp_all add: demo_admin_2fa_def demo_hashes_def demo_env_def demo_crypt_def)
  note r = disable_raises_on_code[OF demo_2fa_lookup(1) demo_2fa_lookup(2)[of 1700000000]]
  note q = disable_raises_on_code[OF demo_lookup(1) demo_lookup(2)[of 1700000000]]
  have r1: "admin_disable_two_factor (demo_env 1700000000) demo_db_2fa ''admin@example.com''
        (Some ''ChangeThis'') (Some ''11111-AAAAA'')
      = Inl (Undefined_function ''set_byte(bytea, integer, bigint)'')"
    using r[THEN conjunct2, THEN conjunct1, of "''JBSWY3DPEHPK3PXP''" 72
        "[101, 108, 108, 111, 33, 222, 173, 190, 239]" "''11111-AAAAA''"]
      demo_2fa_lookup(3,4) demo_secret_bytes[of 1700000000] t(1) by simp
  have r2: "admin_disable_two_factor (demo_env 1700000000) demo_db_2fa ''admin@example.com''
        (Some ''ChangeThis'') (Some ''324550'')
      = Inl (Undefined_function ''set_byte(bytea, integer, bigint)'')"
    using r[THEN conjunct2, THEN conjunct1, of "''JBSWY3DPEHPK3PXP''" 72
        "[101, 108, 108, 111, 33, 222, 173, 190, 239]" "''324550''"]
      demo_2fa_lookup(3,4) demo_secret_bytes[of 1700000000] t(2) by simp
  have r3: "admin_disable_two_factor (demo_env 1700000000) demo_db_2fa ''admin@example.com''
        (Some ''ChangeThis'') None
      = Inr (status_rejected ''Invalid authentication code'', demo_db_2fa)"
    using r[THEN conjunct2, THEN conjunct2, of None] demo_2fa_lookup(3) bl by simp
  have r4: "admin_disable_two_factor (demo_env 1700000000) demo_db ''admin@example.com''
        (Some ''ChangeThis'') (Some ''324550'')
      = Inr (status_rejected ''Two-factor authentication is not enabled'', demo_db)"
    using q[THEN conjunct1, of "Some ''324550''"] demo_lookup(6) by simp
  from demo_2fa_lookup(1,3) h r1 r2 r3 r4 show ?thesis by (intro conjI)
qed

section \<open>Rejections\<close>

text \<open>
  Claim C8, the counterexample. With a wrong password \<open>admin_start_two_factor\<close> returns
  no row with \<open>success = false\<close> and an error text: it raises an exception whose
  message is 'Invalid credentials'.
\<close>

theorem start_raises_counterexample:
  "admin_start_two_factor (demo_env 1000) demo_random20 (\<lambda>i. [10, 27, 44, 61, 78]) (\<lambda>i. ''s2'')
     demo_db ''admin@example.com'' (Some ''wrong'')
   = Inl (Raise_exception ''Invalid credentials'')"
  by (simp add: admin_start_two_factor_def demo_db_def demo_admin_def password_mismatch_def
      demo_env_def demo_crypt_def)

text \<open>
  Claim C8, amended. When the credential check does not pass, \<open>admin_login\<close>,
  \<open>admin_confirm_two_factor\<close> and \<open>admin_disable_two_factor\<close> each return one row with
  \<open>success = false\<close> and the error 'Invalid credentials' and leave the tables as they
  were, and \<open>admin_start_two_factor\<close> raises the exception 'Invalid credentials'. When
  it passes, \<open>admin_confirm_two_factor\<close> returns the row with 'No pending setup found'
  for an account without pending secret and the row with 'Verification code is invalid'
  for a pending secret and a blank code, and \<open>admin_disable_two_factor\<close> returns the row
  with 'Two-factor authentication is not enabled' for an account with 2FA off and the
  row with 'Invalid authentication code' for an account with 2FA on and a blank code;
  the tables are unchanged in each case.
\<close>

theorem rejections_are_rows:
  "(\<not> credentials_pass e d em pw \<longrightarrow>
       admin_login e d em pw = Inr (login_rejected, d)
     \<and> admin_confirm_two_factor e d em pw code = Inr (status_rejected ''Invalid credentials'', d)
     \<and> admin_disable_two_factor e d em pw code = Inr (status_rejected ''Invalid credentials'', d)
     \<and> admin_start_two_factor e random20 random5 salt d em pw
         = Inl (Raise_exception ''Invalid credentials''))
   \<and> (find (\<lambda>a. a_email a = em) (admin_users d) = Some a \<and> \<not> password_mismatch e a pw \<longrightarrow>
        (two_factor_temp_secret a = None \<longrightarrow>
           admin_confirm_two_factor e d em pw code
             = Inr (status_rejected ''No pending setup found'', d))
      \<and> (two_factor_temp_secret a \<noteq> None \<and> blank code \<longrightarrow>
           admin_confirm_two_factor e d em pw code
             = Inr (status_rejected ''Verification code is invalid'', d))
      \<and> (\<not> two_factor_enabled a \<longrightarrow>
           admin_disable_two_factor e d em pw code
             = Inr (status_rejected ''Two-factor authentication is not enabled'', d))
      \<and> (two_factor_enabled a \<and> blank code \<longrightarrow>
           admin_disable_two_factor e d em pw code
             = Inr (status_rejected ''Invalid authentication code'', d)))
   \<and> l_success login_rejected = False
   \<and> l_error login_rejected = Some ''Invalid credentials''
   \<and> s_success (status_rejected msg) = False
   \<and> s_error (status_rejected msg) = Some msg"
proof (intro conjI impI)
  assume n: "\<not> credentials_pass e d em pw"
  show "admin_login e d em pw = Inr (login_rejected, d)"
    using n by (rule login_without_credentials)
  show "admin_confirm_two_factor e d em pw code = Inr (status_rejected ''Invalid credentials'', d)"
    using n by (rule confirm_without_credentials)
  show "admin_disable_two_factor e d em pw code = Inr (status_rejected ''Invalid credentials'', d)"
    using n by (rule disable_without_credentials)
  show "admin_start_two_factor e random20 random5 salt d em pw
         = Inl (Raise_exception ''Invalid credentials'')"
    using n by (rule start_without_credentials)
next
  assume "find (\<lambda>a. a_email a = em) (admin_users d) = Some a \<and> \<not> password_mismatch e a pw"
    and "two_factor_temp_secret a = None"
  then show "admin_confirm_two_factor e d em pw code
             = Inr (status_rejected ''No pending setup found'', d)"
    using confirm_no_pending by blast
next
  assume "find (\<lambda>a. a_email a = em) (admin_users d) = Some a \<and> \<not> password_mismatch e a pw"
    and "two_factor_temp_secret a \<noteq> None \<and> blank code"
  then show "admin_confirm_two_factor e d em pw code
             = Inr (status_rejected ''Verification code is invalid'', d)"
    using confirm_blank by blast
next
  assume "find (\<lambda>a. a_email a = em) (admin_users d) = Some a \<and> \<not> password_mismatch e a pw"
    and "\<not> two_factor_enabled a"
  then show "admin_disable_two_factor e d em pw code
             = Inr (status_rejected ''Two-factor authentication is not enabled'', d)"
    using disable_not_enabled by blast
next
  assume "find (\<lambda>a. a_email a = em) (admin_users d) = Some a \<and> \<not> password_mismatch e a pw"
    and "two_factor_enabled a \<and> blank code"
  then show "admin_disable_two_factor e d em pw code
             = Inr (status_rejected ''Invalid authentication code'', d)"
    using disable_blank by blast
qed (simp_all add: login_rejected_def status_rejected_def)

theorem rejections_are_rows_witness:
  "\<not> credentials_pass (demo_env 1000) demo_db ''admin@example.com'' (Some ''wrong'')
   \<and> admin_login (demo_env 1000) demo_db ''admin@example.com'' (Some ''wrong'')
       = Inr (login_rejected, demo_db)
   \<and> admin_confirm_two_factor (demo_env 1000) demo_db ''admin@example.com'' (Some ''wrong'') (Some ''324550'')
       = Inr (status_rejected ''Invalid credentials'', demo_db)
   \<and> admin_disable_two_factor (demo_env 1000) demo_db ''admin@example.com'' (Some ''wrong'') (Some ''324550'')
       = Inr (status_rejected ''Invalid credentials'', demo_db)
   \<and> admin_confirm_two_factor (demo_env 1000) demo_db ''admin@example.com'' (Some ''ChangeThis'') (Some ''324550'')
       = Inr (status_rejected ''No pending setup found'', demo_db)
   \<and> admin_disable_two_factor (demo_env 1000) demo_db ''admin@example.com'' (Some ''ChangeThis'') (Some ''324550'')
       = Inr (status_rejected ''Two-factor authentication is not enabled'', demo_db)
   \<and> admin_confirm_two_factor (demo_env 1000) demo_db_pending ''admin@example.com'' (Some ''ChangeThis'') (Some ''  '')
       = Inr (status_rejected ''Verification code is invalid'', demo_db_pending)
   \<and> admin_disable_two_factor (demo_env 1000) demo_db_2fa ''admin@example.com'' (Some ''ChangeThis'') None
       = Inr (status_rejected ''Invalid authentication code'', demo_db_2fa)"
proof -
  have bl: "blank (Some ''  '')" "blank None" by (simp_all add: blank_def trim_def)
  note bad = rejections_are_rows[where e = "demo_env 1000" and d = demo_db
      and em = "''admin@example.com''" and pw = "Some ''wrong''" and code = "Some ''324550''",
      THEN conjunct1, THEN mp, OF demo_lookup(5)]
  note good = rejections_are_rows[where e = "demo_env 1000" and d = demo_db
      and em = "''admin@example.com''" and pw = "Some ''ChangeThis''" and code = "Some ''324550''"
      and a = demo_admin, THEN conjunct2, THEN conjunct1, THEN mp,
      OF conjI[OF demo_lookup(1) demo_lookup(2)]]
  note pending = rejections_are_rows[where e = "demo_env 1000" and d = demo_db_pending
      and em = "''admin@example.com''" and pw = "Some ''ChangeThis''" and code = "Some ''  ''"
      and a = demo_admin_pending, THEN conjunct2, THEN conjunct1, THEN mp,
      OF conjI[OF demo_pending_lookup(1) demo_pending_lookup(2)]]
  note enabled = rejections_are_rows[where e = "demo_env 1000" and d = demo_db_2fa
      and em = "''admin@example.com''" and pw = "Some ''ChangeThis''" and code = None
      and a = demo_admin_2fa, THEN conjunct2, THEN conjunct1, THEN mp,
      OF conjI[OF demo_2fa_lookup(1) demo_2fa_lookup(2)]]
  have p: "two_factor_temp_secret demo_admin_pending \<noteq> None"
    by (simp add: demo_pending_lookup(3))
  show ?thesis
  proof (intro conjI)
    show "\<not> credentials_pass (demo_env 1000) demo_db ''admin@example.com'' (Some ''wrong'')"
      by (rule demo_lookup(5))
    show "admin_login (demo_env 1000) demo_db ''admin@example.com'' (Some ''wrong'')
       = Inr (login_rejected, demo_db)"
      using bad by (rule conjunct1)
    show "admin_confirm_two_factor (demo_env 1000) demo_db ''admin@example.com'' (Some ''wrong'') (Some ''324550'')
       = Inr (status_rejected ''Invalid credentials'', demo_db)"
      using bad[THEN conjunct2] by (rule conjunct1)
    show "admin_disable_two_factor (demo_env 1000) demo_db ''admin@example.com'' (Some ''wrong'') (Some ''324550'')
       = Inr (status_rejected ''Invalid credentials'', demo_db)"
      using bad[THEN conjunct2, THEN conjunct2] by (rule conjunct1)
    show "admin_confirm_two_factor (demo_env 1000) demo_db ''admin@example.com'' (Some ''ChangeThis'') (Some ''324550'')
       = Inr (status_rejected ''No pending setup found'', demo_db)"
      using good[THEN conjunct1] demo_lookup(7) by (rule mp)
    show "admin_disable_two_factor (demo_env 1000) demo_db ''admin@example.com'' (Some ''ChangeThis'') (Some ''324550'')
       = Inr (status_rejected ''Two-factor authentication is not enabled'', demo_db)"
      using good[THEN conjunct2, THEN conjunct2, THEN conjunct1] demo_lookup(6) by simp
    show "admin_confirm_two_factor (demo_env 1000) demo_db_pending ''admin@example.com'' (Some ''ChangeThis'') (Some ''  '')
       = Inr (status_rejected ''Verification code is invalid'', demo_db_pending)"
      using pending[THEN conjunct2, THEN conjunct1] p bl(1) by simp
    show "admin_disable_two_factor (demo_env 1000) demo_db_2fa ''admin@example.com'' (Some ''ChangeThis'') None
       = Inr (status_rejected ''Invalid authentication code'', demo_db_2fa)"
      using enabled[THEN conjunct2, THEN conjunct2, THEN conjunct2] demo_2fa_lookup(3) bl(2) by simp
  qed
qed

section \<open>The email lookup\<close>

lemma find_no_email:
  "\<forall>b \<in> set xs. a_email b \<noteq> cand \<Longrightarrow> find (\<lambda>a. a_email a = cand) xs = None"
  by (induction xs) simp_all

text \<open>
  Claim C10, the counterexample. Two accounts whose emails differ only in the case of
  one letter share a password. \<open>admin_login\<close> with the email of the second, which is not
  the stored email of the first, and the password that verifies for the first, is not
  rejected: it succeeds, as the second account.
\<close>

theorem email_case_counterexample:
  "demo_admin \<in> set (admin_users demo_db_two)
   \<and> a_email demo_admin = ''admin@example.com''
   \<and> ''Admin@example.com'' \<noteq> a_email demo_admin
   \<and> \<not> password_mismatch (demo_env 1000) demo_admin (Some ''ChangeThis'')
   \<and> admin_login (demo_env 1000) demo_db_two ''Admin@example.com'' (Some ''ChangeThis'')
       = Inr (login_accepted demo_admin_capital, demo_db_two)
   \<and> l_success (login_accepted demo_admin_capital) = True
   \<and> l_id (login_accepted demo_admin_capital) = Some 2"
  by (simp add: admin_login_def demo_db_two_def demo_admin_capital_def demo_admin_def
      password_mismatch_def demo_env_def demo_crypt_def login_accepted_def)

text \<open>
  Claim C10, amended. The lookup compares the email with \<open>=\<close>, without normalising
  case or white space: for an account whose password verifies, a candidate email that
  differs from the stored one in any way, and that is the stored email of no account,
  is rejected with 'Invalid credentials' by \<open>admin_login\<close>, \<open>admin_confirm_two_factor\<close>
  and \<open>admin_disable_two_factor\<close>, and by the exception of that message in
  \<open>admin_start_two_factor\<close>; the tables are unchanged.
\<close>

theorem email_lookup_is_exact:
  assumes "a \<in> set (admin_users d)"
      and "\<not> password_mismatch e a pw"
      and "cand \<noteq> a_email a"
      and "\<forall>b \<in> set (admin_users d). a_email b \<noteq> cand"
  shows "admin_login e d cand pw = Inr (login_rejected, d)
         \<and> l_success login_rejected = False
         \<and> l_error login_rejected = Some ''Invalid credentials''
         \<and> admin_confirm_two_factor e d cand pw code
             = Inr (status_rejected ''Invalid credentials'', d)
         \<and> admin_disable_two_factor e d cand pw code
             = Inr (status_rejected ''Invalid credentials'', d)
         \<and> admin_start_two_factor e random20 random5 salt d cand pw
             = Inl (Raise_exception ''Invalid credentials'')"
proof -
  have "find (\<lambda>a. a_email a = cand) (admin_users d) = None"
    using assms(4) by (rule find_no_email)
  then show ?thesis
    by (simp add: admin_login_def admin_confirm_two_factor_def admin_disable_two_factor_def
        admin_start_two_factor_def login_rejected_def)
qed

theorem email_lookup_is_exact_witness:
  "demo_admin \<in> set (admin_users demo_db)
   \<and> \<not> password_mismatch (demo_env 1000) demo_admin (Some ''ChangeThis'')
   \<and> ''Admin@example.com'' \<noteq> a_email demo_admin
   \<and> admin_login (demo_env 1000) demo_db ''Admin@example.com'' (Some ''ChangeThis'')
       = Inr (login_rejected, demo_db)
   \<and> admin_login (demo_env 1000) demo_db ''admin@example.com '' (Some ''ChangeThis'')
       = Inr (login_rejected, demo_db)
   \<and> admin_start_two_factor (demo_env 1000) demo_random20 (\<lambda>i. [10, 27, 44, 61, 78]) (\<lambda>i. ''s2'')
       demo_db ''Admin@example.com'' (Some ''ChangeThis'')
       = Inl (Raise_exception ''Invalid credentials'')"
proof -
  have m: "demo_admin \<in> set (admin_users demo_db)" by (simp add: demo_db_def)
  have n1: "''Admin@example.com'' \<noteq> a_email demo_admin"
    and n2: "''admin@example.com '' \<noteq> a_email demo_admin"
    by (simp_all add: demo_admin_def)
  have a1: "\<forall>b \<in> set (admin_users demo_db). a_email b \<noteq> ''Admin@example.com''"
    and a2: "\<forall>b \<in> set (admin_users demo_db). a_email b \<noteq> ''admin@example.com ''"
    by (simp_all add: demo_db_def demo_admin_def)
  note r1 = email_lookup_is_exact[OF m demo_lookup(2)[of 1000] n1 a1,
      of None demo_random20 "\<lambda>i. [10, 27, 44, 61, 78]" "\<lambda>i. ''s2''"]
  note r2 = email_lookup_is_exact[OF m demo_lookup(2)[of 1000] n2 a2,
      of None demo_random20 "\<lambda>i. [10, 27, 44, 61, 78]" "\<lambda>i. ''s2''"]
  from m demo_lookup(2)[of 1000] n1 r1 r2 show ?thesis by simp
qed

end
